theory Spec2Isabelle
  imports Main "HOL-Library.AList" "HOL-Library.Sublist"
begin

section \<open>RoadTemp: temporary files and directories\<close>

text \<open>
  A shallow embedding of \<^verbatim>\<open>src/roadtemp/temp.py\<close>. The module is a thin layer over
  \<^verbatim>\<open>pathlib\<close>, \<^verbatim>\<open>tempfile\<close>, \<^verbatim>\<open>shutil\<close> and \<^verbatim>\<open>datetime\<close>, so the
  development has two layers: a small executable model of the part of the Python
  library and of the file system that the module calls (this section and the next two),
  and then the three classes of the module, translated method by method.

  Conventions. A method that mutates \<^verbatim>\<open>self\<close> or the file system takes the old state
  and returns the new one. A call that can raise returns \<open>py_error + result\<close>, with
  \<open>Inl\<close> the exception. Whatever the interpreter takes from its environment (the clock,
  the random names, the descriptor number) is an argument of the model.
\<close>

subsection \<open>Exceptions and values\<close>

datatype py_error =
    TypeError
  | KeyError
  | OverflowError
  | FileNotFoundError
  | FileExistsError
  | NotADirectoryError
  | IsADirectoryError
  | PermissionError

text \<open>\<^verbatim>\<open>Union[str, bytes]\<close>: the two kinds of data a file object accepts.\<close>

datatype pydata = Str string | Bytes string

subsection \<open>Pure paths (\<^verbatim>\<open>pathlib.PurePosixPath\<close>)\<close>

text \<open>
  A path is its anchor (rooted at \<^verbatim>\<open>/\<close> or not) and its components. Parsing drops
  empty components and \<^verbatim>\<open>.\<close> and keeps \<^verbatim>\<open>..\<close>, as \<^verbatim>\<open>pathlib\<close> does. (POSIX lets a
  path that starts with exactly two slashes have a root of its own, and \<^verbatim>\<open>pathlib\<close>
  prints it back with both; here it is the ordinary root.)
\<close>

record pypath =
  absolute :: bool
  parts :: "string list"

fun split_slash :: "string \<Rightarrow> string list" where
  "split_slash [] = [[]]"
| "split_slash (c # cs) =
     (if c = CHR ''/'' then [] # split_slash cs
      else (case split_slash cs of [] \<Rightarrow> [[c]] | w # ws \<Rightarrow> (c # w) # ws))"

definition Path :: "string \<Rightarrow> pypath" where
  "Path s =
     \<lparr>absolute = (case s of [] \<Rightarrow> False | c # _ \<Rightarrow> c = CHR ''/''),
      parts = filter (\<lambda>w. w \<noteq> [] \<and> w \<noteq> ''.'') (split_slash s)\<rparr>"

text \<open>\<^verbatim>\<open>p / name\<close>: an absolute right operand replaces the left one.\<close>

definition truediv :: "pypath \<Rightarrow> string \<Rightarrow> pypath" where
  "truediv p name =
     (let q = Path name in
      if absolute q then q else p\<lparr>parts := parts p @ parts q\<rparr>)"

fun join_slash :: "string list \<Rightarrow> string" where
  "join_slash [] = []"
| "join_slash [w] = w"
| "join_slash (w # v # ws) = w @ CHR ''/'' # join_slash (v # ws)"

text \<open>\<^verbatim>\<open>str(p)\<close>\<close>

definition str_path :: "pypath \<Rightarrow> string" where
  "str_path p =
     (if absolute p then CHR ''/'' # join_slash (parts p)
      else if parts p = [] then ''.''
      else join_slash (parts p))"

text \<open>\<^verbatim>\<open>p.parent\<close>: the path without its last component; the anchor is its own parent.\<close>

definition parent :: "pypath \<Rightarrow> pypath" where
  "parent p = p\<lparr>parts := butlast (parts p)\<rparr>"


subsection \<open>The file system\<close>

text \<open>
  The file system is a tree of nodes addressed by location: the list of names from the
  root. It has regular files (with their text) and directories, no symbolic links.
  \<open>cwd\<close> is the process's working directory, \<open>tempdir\<close> what
  \<^verbatim>\<open>tempfile.gettempdir()\<close> returns. \<open>protected\<close> holds the locations the operating
  system refuses to remove (permission denied): it is what makes a removal fail.
\<close>

datatype node = File string | Dir

record filesystem =
  nodes :: "string list \<Rightarrow> node option"
  cwd :: "string list"
  protected :: "string list set"
  tempdir :: string

text \<open>
  Resolution walks the components from the start location. Every location it passes
  through has to be a directory; \<^verbatim>\<open>..\<close> steps to the parent (the root is its own
  parent). The location it arrives at need not exist.
\<close>

fun walk :: "filesystem \<Rightarrow> string list \<Rightarrow> string list \<Rightarrow> py_error + string list" where
  "walk fs cur [] = Inr cur"
| "walk fs cur (c # cs) =
     (case nodes fs cur of
        None \<Rightarrow> Inl FileNotFoundError
      | Some (File _) \<Rightarrow> Inl NotADirectoryError
      | Some Dir \<Rightarrow> walk fs (if c = ''..'' then butlast cur else cur @ [c]) cs)"

definition locate :: "filesystem \<Rightarrow> pypath \<Rightarrow> py_error + string list" where
  "locate fs p = walk fs (if absolute p then [] else cwd fs) (parts p)"

text \<open>
  The location a path names is fixed by its components alone: resolution either fails or
  arrives there (lemma \<open>locate_target\<close> below).
\<close>

definition target :: "filesystem \<Rightarrow> pypath \<Rightarrow> string list" where
  "target fs p =
     foldl (\<lambda>cur c. if c = ''..'' then butlast cur else cur @ [c])
       (if absolute p then [] else cwd fs) (parts p)"

text \<open>\<^verbatim>\<open>Path.exists\<close>, \<^verbatim>\<open>Path.is_file\<close>, \<^verbatim>\<open>Path.is_dir\<close>: a path that does not resolve is none of them.\<close>

definition Path_exists :: "pypath \<Rightarrow> filesystem \<Rightarrow> bool" where
  "Path_exists p fs =
     (case locate fs p of Inl _ \<Rightarrow> False | Inr l \<Rightarrow> nodes fs l \<noteq> None)"

definition Path_is_file :: "pypath \<Rightarrow> filesystem \<Rightarrow> bool" where
  "Path_is_file p fs =
     (case locate fs p of
        Inl _ \<Rightarrow> False
      | Inr l \<Rightarrow> (case nodes fs l of Some (File _) \<Rightarrow> True | _ \<Rightarrow> False))"

definition Path_is_dir :: "pypath \<Rightarrow> filesystem \<Rightarrow> bool" where
  "Path_is_dir p fs =
     (case locate fs p of
        Inl _ \<Rightarrow> False
      | Inr l \<Rightarrow> (case nodes fs l of Some Dir \<Rightarrow> True | _ \<Rightarrow> False))"

text \<open>A new node needs its parent directory.\<close>

definition create_node :: "string list \<Rightarrow> node \<Rightarrow> filesystem \<Rightarrow> py_error + filesystem" where
  "create_node l n fs =
     (if l \<noteq> [] \<and> nodes fs (butlast l) = Some Dir
      then Inr (fs\<lparr>nodes := (nodes fs)(l \<mapsto> n)\<rparr>)
      else Inl FileNotFoundError)"

text \<open>\<^verbatim>\<open>Path.touch()\<close> (\<^verbatim>\<open>exist_ok=True\<close>): creates an empty file unless the path exists.\<close>

definition Path_touch :: "pypath \<Rightarrow> filesystem \<Rightarrow> py_error + filesystem" where
  "Path_touch p fs =
     (case locate fs p of
        Inl e \<Rightarrow> Inl e
      | Inr l \<Rightarrow> (case nodes fs l of Some _ \<Rightarrow> Inr fs | None \<Rightarrow> create_node l (File []) fs))"

text \<open>\<^verbatim>\<open>os.mkdir\<close>\<close>

definition os_mkdir :: "pypath \<Rightarrow> filesystem \<Rightarrow> py_error + filesystem" where
  "os_mkdir p fs =
     (case locate fs p of
        Inl e \<Rightarrow> Inl e
      | Inr l \<Rightarrow> (case nodes fs l of Some _ \<Rightarrow> Inl FileExistsError | None \<Rightarrow> create_node l Dir fs))"

text \<open>
  \<^verbatim>\<open>Path.mkdir(parents, exist_ok)\<close>, as \<^verbatim>\<open>pathlib\<close> writes it:
  \<^verbatim>\<open>
    try:
        os.mkdir(self, mode)
    except FileNotFoundError:
        if not parents or self.parent == self:
            raise
        self.parent.mkdir(parents=True, exist_ok=True)
        self.mkdir(mode, parents=False, exist_ok=exist_ok)
    except OSError:
        if not exist_ok or not self.is_dir():
            raise
  \<close>
  Every error of \<open>os_mkdir\<close> is an \<^verbatim>\<open>OSError\<close>.
\<close>

function Path_mkdir :: "bool \<Rightarrow> bool \<Rightarrow> pypath \<Rightarrow> filesystem \<Rightarrow> py_error + filesystem" where
  "Path_mkdir parents exist_ok p fs =
     (case os_mkdir p fs of
        Inr fs' \<Rightarrow> Inr fs'
      | Inl e \<Rightarrow>
          if e = FileNotFoundError then
            (if \<not> parents \<or> parent p = p then Inl e
             else (case Path_mkdir True True (parent p) fs of
                     Inl e' \<Rightarrow> Inl e'
                   | Inr fs1 \<Rightarrow> Path_mkdir False exist_ok p fs1))
          else if \<not> exist_ok \<or> \<not> Path_is_dir p fs then Inl e
          else Inr fs)"
  by pat_completeness auto
termination
proof (relation "measure (\<lambda>(parents, exist_ok, p, fs). 2 * length (parts p) + (if parents then 1 else 0))")
  show "wf (measure (\<lambda>(parents, exist_ok, p, fs). 2 * length (parts p) + (if parents then 1 else 0)))"
    by simp
next
  fix parents exist_ok :: bool and p :: pypath and fs :: filesystem and e :: py_error
  assume "\<not> (\<not> parents \<or> parent p = p)"
  then have "parts p \<noteq> []" and "parents"
    by (auto simp: parent_def)
  then show "((True, True, parent p, fs), (parents, exist_ok, p, fs))
      \<in> measure (\<lambda>(parents, exist_ok, p, fs). 2 * length (parts p) + (if parents then 1 else 0))"
    by (cases "parts p") (auto simp: parent_def)
next
  fix parents exist_ok :: bool and p :: pypath and fs fs1 :: filesystem and e :: py_error
  assume "\<not> (\<not> parents \<or> parent p = p)"
  then show "((False, exist_ok, p, fs1), (parents, exist_ok, p, fs))
      \<in> measure (\<lambda>(parents, exist_ok, p, fs). 2 * length (parts p) + (if parents then 1 else 0))"
    by auto
qed

declare Path_mkdir.simps [simp del]

text \<open>\<^verbatim>\<open>Path.unlink()\<close>\<close>

definition Path_unlink :: "pypath \<Rightarrow> filesystem \<Rightarrow> py_error + filesystem" where
  "Path_unlink p fs =
     (case locate fs p of
        Inl e \<Rightarrow> Inl e
      | Inr l \<Rightarrow>
          (case nodes fs l of
             None \<Rightarrow> Inl FileNotFoundError
           | Some Dir \<Rightarrow> Inl IsADirectoryError
           | Some (File _) \<Rightarrow>
               if l \<in> protected fs then Inl PermissionError
               else Inr (fs\<lparr>nodes := (nodes fs)(l := None)\<rparr>)))"

text \<open>
  \<^verbatim>\<open>shutil.rmtree(p)\<close>: removes the directory and everything below it. It raises when
  something below cannot be removed. How much it has removed by then depends on the order
  in which the operating system lists a directory; the model leaves the tree as it was.
\<close>

definition shutil_rmtree :: "pypath \<Rightarrow> filesystem \<Rightarrow> py_error + filesystem" where
  "shutil_rmtree p fs =
     (case locate fs p of
        Inl e \<Rightarrow> Inl e
      | Inr l \<Rightarrow>
          (case nodes fs l of
             None \<Rightarrow> Inl FileNotFoundError
           | Some (File _) \<Rightarrow> Inl NotADirectoryError
           | Some Dir \<Rightarrow>
               if \<exists>q \<in> protected fs. prefix l q \<and> nodes fs q \<noteq> None then Inl PermissionError
               else Inr (fs\<lparr>nodes := (\<lambda>q. if prefix l q then None else nodes fs q)\<rparr>)))"

text \<open>\<^verbatim>\<open>Path.write_text(content)\<close> and \<^verbatim>\<open>Path.read_text()\<close>\<close>

definition Path_write_text :: "pypath \<Rightarrow> string \<Rightarrow> filesystem \<Rightarrow> py_error + filesystem" where
  "Path_write_text p content fs =
     (case locate fs p of
        Inl e \<Rightarrow> Inl e
      | Inr l \<Rightarrow>
          (case nodes fs l of
             Some Dir \<Rightarrow> Inl IsADirectoryError
           | Some (File _) \<Rightarrow> Inr (fs\<lparr>nodes := (nodes fs)(l \<mapsto> File content)\<rparr>)
           | None \<Rightarrow> create_node l (File content) fs))"

definition Path_read_text :: "pypath \<Rightarrow> filesystem \<Rightarrow> py_error + string" where
  "Path_read_text p fs =
     (case locate fs p of
        Inl e \<Rightarrow> Inl e
      | Inr l \<Rightarrow>
          (case nodes fs l of
             None \<Rightarrow> Inl FileNotFoundError
           | Some Dir \<Rightarrow> Inl IsADirectoryError
           | Some (File c) \<Rightarrow> Inr c))"

subsection \<open>\<^verbatim>\<open>tempfile\<close>\<close>

text \<open>
  \<^verbatim>\<open>os.path.join\<close> on two strings, and the loops of \<^verbatim>\<open>tempfile.mkstemp\<close> and
  \<^verbatim>\<open>tempfile.mkdtemp\<close>: they try the candidate names (random in the library, the
  argument \<open>names\<close> here) until one is free, and give up with \<^verbatim>\<open>FileExistsError\<close>
  when the candidates run out. The path returned is the joined one; the library versions
  that return its \<^verbatim>\<open>abspath\<close> agree with this for an absolute \<open>dir\<close> without \<^verbatim>\<open>.\<close>
  and \<^verbatim>\<open>..\<close> components.
\<close>

definition os_path_join :: "string \<Rightarrow> string \<Rightarrow> string" where
  "os_path_join a b =
     (if (case b of [] \<Rightarrow> False | c # _ \<Rightarrow> c = CHR ''/'') then b
      else if a = [] \<or> last a = CHR ''/'' then a @ b
      else a @ CHR ''/'' # b)"

definition os_open_excl :: "pypath \<Rightarrow> filesystem \<Rightarrow> py_error + filesystem" where
  "os_open_excl p fs =
     (case locate fs p of
        Inl e \<Rightarrow> Inl e
      | Inr l \<Rightarrow> (case nodes fs l of Some _ \<Rightarrow> Inl FileExistsError | None \<Rightarrow> create_node l (File []) fs))"

fun mktemp_loop ::
  "(pypath \<Rightarrow> filesystem \<Rightarrow> py_error + filesystem) \<Rightarrow> string \<Rightarrow> string \<Rightarrow> string \<Rightarrow>
   string list \<Rightarrow> filesystem \<Rightarrow> py_error + (string \<times> filesystem)" where
  "mktemp_loop mk sfx pfx dir [] fs = Inl FileExistsError"
| "mktemp_loop mk sfx pfx dir (name # names) fs =
     (let file = os_path_join dir (pfx @ name @ sfx) in
      case mk (Path file) fs of
        Inr fs' \<Rightarrow> Inr (file, fs')
      | Inl e \<Rightarrow> if e = FileExistsError then mktemp_loop mk sfx pfx dir names fs else Inl e)"

definition mkstemp ::
  "string \<Rightarrow> string \<Rightarrow> string option \<Rightarrow> string list \<Rightarrow> nat \<Rightarrow> filesystem \<Rightarrow>
   py_error + ((nat \<times> string) \<times> filesystem)" where
  "mkstemp sfx pfx dir names fd fs =
     (case mktemp_loop os_open_excl sfx pfx (case dir of None \<Rightarrow> tempdir fs | Some d \<Rightarrow> d) names fs of
        Inl e \<Rightarrow> Inl e
      | Inr (file, fs') \<Rightarrow> Inr ((fd, file), fs'))"

definition mkdtemp ::
  "string \<Rightarrow> string \<Rightarrow> string option \<Rightarrow> string list \<Rightarrow> filesystem \<Rightarrow>
   py_error + (string \<times> filesystem)" where
  "mkdtemp sfx pfx dir names fs =
     mktemp_loop os_mkdir sfx pfx (case dir of None \<Rightarrow> tempdir fs | Some d \<Rightarrow> d) names fs"

subsection \<open>File objects\<close>

text \<open>
  What \<^verbatim>\<open>os.fdopen(fd, "w+")\<close> or \<^verbatim>\<open>os.fdopen(fd, "wb+")\<close> returns: a stream with
  its mode, the data seen through the descriptor and the position. A text stream accepts
  \<^verbatim>\<open>str\<close> only and a binary one \<^verbatim>\<open>bytes\<close> only; \<^verbatim>\<open>write\<close> returns the number of
  characters or bytes. Newline translation, encoding and the moment at which the data
  reaches the file system are not modelled.
\<close>

record fileobj =
  fo_text :: bool
  fo_data :: string
  fo_pos :: nat

definition os_fdopen :: "nat \<Rightarrow> bool \<Rightarrow> fileobj" where
  "os_fdopen fd text = \<lparr>fo_text = text, fo_data = [], fo_pos = 0\<rparr>"

definition put_at :: "fileobj \<Rightarrow> string \<Rightarrow> fileobj" where
  "put_at f s =
     f\<lparr>fo_data := take (fo_pos f) (fo_data f) @ s @ drop (fo_pos f + length s) (fo_data f),
       fo_pos := fo_pos f + length s\<rparr>"

definition file_write :: "fileobj \<Rightarrow> pydata \<Rightarrow> py_error + (int \<times> fileobj)" where
  "file_write f data =
     (case data of
        Str s \<Rightarrow> if fo_text f then Inr (int (length s), put_at f s) else Inl TypeError
      | Bytes b \<Rightarrow> if fo_text f then Inl TypeError else Inr (int (length b), put_at f b))"

text \<open>\<^verbatim>\<open>f.seek(0); f.read()\<close>\<close>

definition file_read_all :: "fileobj \<Rightarrow> pydata \<times> fileobj" where
  "file_read_all f =
     ((if fo_text f then Str (fo_data f) else Bytes (fo_data f)),
      f\<lparr>fo_pos := length (fo_data f)\<rparr>)"

section \<open>\<^verbatim>\<open>class TempFile\<close>\<close>

text \<open>
  The fields of the three classes carry the prefixes \<open>tf_\<close>, \<open>td_\<close> and none, since
  record fields share one name space: \<open>tf_file\<close> is \<^verbatim>\<open>TempFile._file\<close>, and so on.
  \<^verbatim>\<open>atexit.register\<close> in \<^verbatim>\<open>create\<close> only schedules \<^verbatim>\<open>_cleanup\<close> for the end of the
  process; the list of exit hooks is not part of the state.
\<close>

record TempFile =
  tf_suffix :: string
  tf_prefix :: string
  tf_dir :: "string option"
  tf_delete :: bool
  tf_text :: bool
  tf_fd :: "nat option"
  tf_path :: "pypath option"
  tf_file :: "fileobj option"

definition TempFile_init :: "string \<Rightarrow> string \<Rightarrow> string option \<Rightarrow> bool \<Rightarrow> bool \<Rightarrow> TempFile" where
  "TempFile_init sfx pfx dir delete text =
     \<lparr>tf_suffix = sfx, tf_prefix = pfx, tf_dir = dir, tf_delete = delete, tf_text = text,
      tf_fd = None, tf_path = None, tf_file = None\<rparr>"

definition TempFile_create ::
  "string list \<Rightarrow> nat \<Rightarrow> TempFile \<Rightarrow> filesystem \<Rightarrow> py_error + (TempFile \<times> filesystem)" where
  "TempFile_create names fd self fs =
     (case mkstemp (tf_suffix self) (tf_prefix self) (tf_dir self) names fd fs of
        Inl e \<Rightarrow> Inl e
      | Inr ((fd', file), fs') \<Rightarrow>
          Inr (self\<lparr>tf_fd := Some fd', tf_path := Some (Path file),
                    tf_file := Some (os_fdopen fd' (tf_text self))\<rparr>, fs'))"

text \<open>\<^verbatim>\<open>_cleanup\<close>: every exception is swallowed.\<close>

definition TempFile_cleanup :: "TempFile \<Rightarrow> filesystem \<Rightarrow> filesystem" where
  "TempFile_cleanup self fs =
     (case tf_path self of
        None \<Rightarrow> fs
      | Some p \<Rightarrow>
          if Path_exists p fs
          then (case Path_unlink p fs of Inl _ \<Rightarrow> fs | Inr fs' \<Rightarrow> fs')
          else fs)"

definition TempFile_name :: "TempFile \<Rightarrow> string" where
  "TempFile_name self = (case tf_path self of Some p \<Rightarrow> str_path p | None \<Rightarrow> [])"

definition TempFile_write :: "TempFile \<Rightarrow> pydata \<Rightarrow> py_error + (int \<times> TempFile)" where
  "TempFile_write self data =
     (case tf_file self of
        Some f \<Rightarrow>
          (case file_write f data of
             Inl e \<Rightarrow> Inl e
           | Inr (n, f') \<Rightarrow> Inr (n, self\<lparr>tf_file := Some f'\<rparr>))
      | None \<Rightarrow> Inr (0, self))"

definition TempFile_read :: "TempFile \<Rightarrow> py_error + (pydata \<times> TempFile)" where
  "TempFile_read self =
     (case tf_file self of
        Some f \<Rightarrow> (case file_read_all f of (d, f') \<Rightarrow> Inr (d, self\<lparr>tf_file := Some f'\<rparr>))
      | None \<Rightarrow> Inr ((if tf_text self then Str [] else Bytes []), self))"

definition TempFile_close :: "TempFile \<Rightarrow> TempFile" where
  "TempFile_close self =
     (case tf_file self of Some f \<Rightarrow> self\<lparr>tf_file := None\<rparr> | None \<Rightarrow> self)"

definition TempFile_exit :: "TempFile \<Rightarrow> filesystem \<Rightarrow> TempFile \<times> filesystem" where
  "TempFile_exit self fs =
     (let self' = TempFile_close self in
      (self', if tf_delete self' then TempFile_cleanup self' fs else fs))"

section \<open>\<^verbatim>\<open>class TempDir\<close>\<close>

record TempDir =
  td_suffix :: string
  td_prefix :: string
  td_dir :: "string option"
  td_delete :: bool
  td_path :: "pypath option"

definition TempDir_init :: "string \<Rightarrow> string \<Rightarrow> string option \<Rightarrow> bool \<Rightarrow> TempDir" where
  "TempDir_init sfx pfx dir delete =
     \<lparr>td_suffix = sfx, td_prefix = pfx, td_dir = dir, td_delete = delete, td_path = None\<rparr>"

definition TempDir_create ::
  "string list \<Rightarrow> TempDir \<Rightarrow> filesystem \<Rightarrow> py_error + (TempDir \<times> filesystem)" where
  "TempDir_create names self fs =
     (case mkdtemp (td_suffix self) (td_prefix self) (td_dir self) names fs of
        Inl e \<Rightarrow> Inl e
      | Inr (file, fs') \<Rightarrow> Inr (self\<lparr>td_path := Some (Path file)\<rparr>, fs'))"

definition TempDir_cleanup :: "TempDir \<Rightarrow> filesystem \<Rightarrow> filesystem" where
  "TempDir_cleanup self fs =
     (case td_path self of
        None \<Rightarrow> fs
      | Some p \<Rightarrow>
          if Path_exists p fs
          then (case shutil_rmtree p fs of Inl _ \<Rightarrow> fs | Inr fs' \<Rightarrow> fs')
          else fs)"

definition TempDir_name :: "TempDir \<Rightarrow> string" where
  "TempDir_name self = (case td_path self of Some p \<Rightarrow> str_path p | None \<Rightarrow> [])"



definition TempDir_exit :: "TempDir \<Rightarrow> filesystem \<Rightarrow> filesystem" where
  "TempDir_exit self fs = (if td_delete self then TempDir_cleanup self fs else fs)"

section \<open>\<^verbatim>\<open>class TempManager\<close>\<close>

subsection \<open>Time\<close>

text \<open>
  A \<^verbatim>\<open>datetime\<close> is the number of microseconds since 0001-01-01T00:00:00, at most
  \<open>datetime_max\<close> (9999-12-31T23:59:59.999999). \<^verbatim>\<open>d + timedelta(seconds=ttl)\<close> raises
  \<^verbatim>\<open>OverflowError\<close> when the sum leaves that range (the constructor of \<^verbatim>\<open>timedelta\<close>
  raises the same exception for a \<open>ttl\<close> beyond its own, wider, range).
\<close>

type_synonym datetime = int

definition datetime_max :: datetime where
  "datetime_max = 315537897599999999"

definition datetime_add_seconds :: "datetime \<Rightarrow> int \<Rightarrow> py_error + datetime" where
  "datetime_add_seconds d ttl =
     (let r = d + ttl * 1000000 in
      if 0 \<le> r \<and> r \<le> datetime_max then Inr r else Inl OverflowError)"

subsection \<open>The registry\<close>

text \<open>
  \<^verbatim>\<open>_files\<close> is a dictionary from \<^verbatim>\<open>str(path)\<close> to \<^verbatim>\<open>TempFileInfo\<close>. A Python
  dictionary keeps its keys in insertion order, and \<^verbatim>\<open>list()\<close> and the loop of
  \<^verbatim>\<open>cleanup\<close> follow that order, so it is an association list: assignment replaces the
  value of a key in place or appends (\<open>AList.update\<close>), \<^verbatim>\<open>pop\<close> raises \<^verbatim>\<open>KeyError\<close>
  on a missing key. The lock only serialises the calls; the model is sequential.
\<close>

record TempFileInfo =
  path :: pypath
  created :: datetime
  expires :: "datetime option"
  auto_delete :: bool

record TempManager =
  base_dir :: pypath
  auto_cleanup :: bool
  max_age :: int
  files :: "(string \<times> TempFileInfo) list"

definition dict_pop :: "('k \<times> 'v) list \<Rightarrow> 'k \<Rightarrow> py_error + ('v \<times> ('k \<times> 'v) list)" where
  "dict_pop d key =
     (case map_of d key of
        None \<Rightarrow> Inl KeyError
      | Some v \<Rightarrow> Inr (v, AList.delete key d))"

text \<open>
  \<^verbatim>\<open>__init__\<close>: \<^verbatim>\<open>Path(base_dir) if base_dir else Path(tempfile.gettempdir()) / "roadtemp"\<close>,
  then \<^verbatim>\<open>base_dir.mkdir(parents=True, exist_ok=True)\<close>. The empty string is falsy.
\<close>

definition TempManager_init ::
  "string option \<Rightarrow> bool \<Rightarrow> int \<Rightarrow> filesystem \<Rightarrow> py_error + (TempManager \<times> filesystem)" where
  "TempManager_init base auto_cln age fs =
     (let b = (case base of
                 None \<Rightarrow> truediv (Path (tempdir fs)) ''roadtemp''
               | Some s \<Rightarrow> if s \<noteq> [] then Path s else truediv (Path (tempdir fs)) ''roadtemp'');
          self = \<lparr>base_dir = b, auto_cleanup = auto_cln, max_age = age, files = []\<rparr>
      in case Path_mkdir True True b fs of
           Inl e \<Rightarrow> Inl e
         | Inr fs' \<Rightarrow> Inr (self, fs'))"

text \<open>
  \<^verbatim>\<open>expires = datetime.now() + timedelta(seconds=ttl) if ttl else None\<close>. The condition
  is the truth value of \<open>ttl\<close>: \<^verbatim>\<open>None\<close> and \<open>0\<close> are both falsy, and then the clock is
  not read.
\<close>

definition expiry :: "int option \<Rightarrow> datetime \<Rightarrow> py_error + datetime option" where
  "expiry ttl now =
     (case ttl of
        None \<Rightarrow> Inr None
      | Some n \<Rightarrow>
          if n \<noteq> 0
          then (case datetime_add_seconds now n of Inl e \<Rightarrow> Inl e | Inr d \<Rightarrow> Inr (Some d))
          else Inr None)"

text \<open>
  \<^verbatim>\<open>create_file(suffix, prefix, ttl)\<close>. \<open>hex\<close> is \<^verbatim>\<open>uuid.uuid4().hex\<close>; \<open>now1\<close> and
  \<open>now2\<close> are the two readings of \<^verbatim>\<open>datetime.now()\<close>, for \<open>expires\<close> and for
  \<open>created\<close>.
\<close>

definition TempManager_create_file ::
  "string \<Rightarrow> string \<Rightarrow> int option \<Rightarrow> string \<Rightarrow> datetime \<Rightarrow> datetime \<Rightarrow> TempManager \<Rightarrow> filesystem \<Rightarrow>
   py_error + (pypath \<times> TempManager \<times> filesystem)" where
  "TempManager_create_file sfx pfx ttl hex now1 now2 self fs =
     (let name = pfx @ hex @ sfx;
          p = truediv (base_dir self) name
      in case Path_touch p fs of
           Inl e \<Rightarrow> Inl e
         | Inr fs' \<Rightarrow>
             (case expiry ttl now1 of
                Inl e \<Rightarrow> Inl e
              | Inr ex \<Rightarrow>
                  Inr (p,
                       self\<lparr>files := AList.update (str_path p)
                          \<lparr>path = p, created = now2, expires = ex, auto_delete = True\<rparr> (files self)\<rparr>,
                       fs')))"

text \<open>\<^verbatim>\<open>create_dir(prefix, ttl)\<close>: \<^verbatim>\<open>path.mkdir(parents=True)\<close>, so an existing path raises.\<close>

definition TempManager_create_dir ::
  "string \<Rightarrow> int option \<Rightarrow> string \<Rightarrow> datetime \<Rightarrow> datetime \<Rightarrow> TempManager \<Rightarrow> filesystem \<Rightarrow>
   py_error + (pypath \<times> TempManager \<times> filesystem)" where
  "TempManager_create_dir pfx ttl hex now1 now2 self fs =
     (let name = pfx @ hex;
          p = truediv (base_dir self) name
      in case Path_mkdir True False p fs of
           Inl e \<Rightarrow> Inl e
         | Inr fs' \<Rightarrow>
             (case expiry ttl now1 of
                Inl e \<Rightarrow> Inl e
              | Inr ex \<Rightarrow>
                  Inr (p,
                       self\<lparr>files := AList.update (str_path p)
                          \<lparr>path = p, created = now2, expires = ex, auto_delete = True\<rparr> (files self)\<rparr>,
                       fs')))"

text \<open>
  The first loop of \<^verbatim>\<open>cleanup\<close>, for one entry. \<^verbatim>\<open>info.expires\<close> is truthy whenever it
  is set. \<^verbatim>\<open>age\<close> is \<^verbatim>\<open>(now - info.created).total_seconds()\<close>, a float that Python
  compares with the integer \<open>max_age\<close>; here the comparison is the exact one, in
  microseconds.
\<close>

definition should_remove :: "TempManager \<Rightarrow> bool \<Rightarrow> datetime \<Rightarrow> TempFileInfo \<Rightarrow> bool" where
  "should_remove self force now info =
     (let sr = force;
          sr = (if \<not> sr \<and> (case expires info of None \<Rightarrow> False | Some e \<Rightarrow> now > e) then True else sr);
          sr = (if \<not> sr \<and> auto_cleanup self
                then (if now - created info > max_age self * 1000000 then True else sr)
                else sr)
      in sr)"

definition to_remove :: "TempManager \<Rightarrow> bool \<Rightarrow> datetime \<Rightarrow> string list" where
  "to_remove self force now =
     map fst (filter (\<lambda>(key, info). should_remove self force now info) (files self))"

text \<open>
  The body of the \<^verbatim>\<open>try\<close> before \<^verbatim>\<open>count += 1\<close>: a file is unlinked, a directory is
  removed with its contents, and a path that is neither is left alone without an error.
\<close>

definition remove_path :: "pypath \<Rightarrow> filesystem \<Rightarrow> py_error + filesystem" where
  "remove_path p fs =
     (if Path_is_file p fs then Path_unlink p fs
      else if Path_is_dir p fs then shutil_rmtree p fs
      else Inr fs)"

text \<open>
  The second loop. The state is the registry, the file system, \<open>count\<close> and what
  \<^verbatim>\<open>logger.error\<close> has been given (the path and the exception). \<^verbatim>\<open>pop\<close> stands outside
  the \<^verbatim>\<open>try\<close>, so its \<^verbatim>\<open>KeyError\<close> would leave the loop and the method.
\<close>

fun cleanup_loop ::
  "string list \<Rightarrow> (string \<times> TempFileInfo) list \<times> filesystem \<times> int \<times> (pypath \<times> py_error) list \<Rightarrow>
   py_error + ((string \<times> TempFileInfo) list \<times> filesystem \<times> int \<times> (pypath \<times> py_error) list)" where
  "cleanup_loop [] st = Inr st"
| "cleanup_loop (key # keys) (reg, fs, count, logged) =
     (case dict_pop reg key of
        Inl e \<Rightarrow> Inl e
      | Inr (info, reg') \<Rightarrow>
          (case remove_path (path info) fs of
             Inr fs' \<Rightarrow> cleanup_loop keys (reg', fs', count + 1, logged)
           | Inl e \<Rightarrow> cleanup_loop keys (reg', fs, count, logged @ [(path info, e)])))"

definition TempManager_cleanup ::
  "bool \<Rightarrow> datetime \<Rightarrow> TempManager \<Rightarrow> filesystem \<Rightarrow>
   py_error + (int \<times> TempManager \<times> filesystem \<times> (pypath \<times> py_error) list)" where
  "TempManager_cleanup force now self fs =
     (case cleanup_loop (to_remove self force now) (files self, fs, 0, []) of
        Inl e \<Rightarrow> Inl e
      | Inr (reg, fs', count, logged) \<Rightarrow> Inr (count, self\<lparr>files := reg\<rparr>, fs', logged))"


text \<open>\<^verbatim>\<open>__exit__\<close>: \<^verbatim>\<open>self.cleanup(force=True)\<close>, the count dropped.\<close>

definition TempManager_exit ::
  "datetime \<Rightarrow> TempManager \<Rightarrow> filesystem \<Rightarrow> py_error + (TempManager \<times> filesystem)" where
  "TempManager_exit now self fs =
     (case TempManager_cleanup True now self fs of
        Inl e \<Rightarrow> Inl e
      | Inr (count, self', fs', logged) \<Rightarrow> Inr (self', fs'))"

section \<open>Properties stated by the specification\<close>





section \<open>Example states\<close>

text \<open>
  A small file system with the directory \<^verbatim>\<open>/tmp\<close> as the system's temporary directory,
  and the states the examples below start from. \<open>ex_base\<close> and \<open>ex_manager\<close> are what
  \<^verbatim>\<open>TempManager()\<close> produces there, \<open>ex_tempdir\<close> and \<open>ex_tempdir_fs\<close> what
  \<^verbatim>\<open>TempDir().create()\<close> produces when the random name is \<^verbatim>\<open>k3x9_q2m\<close>. The
  constants \<open>hex_d\<close> to \<open>hex_h\<close> are values of \<^verbatim>\<open>uuid.uuid4().hex\<close>; the files and
  directories of the examples are named by them. \<open>t0\<close> is a reading of
  \<^verbatim>\<open>datetime.now()\<close> in the year 2025; the entries of the examples were created then.
\<close>

definition t0 :: datetime where
  "t0 = 63900000000000000"

definition hex_d :: string where
  "hex_d = ''d81e2d3c4b5a4978a1b2c3d4e5f60718''"

definition hex_e :: string where
  "hex_e = ''e53f9a10c7264d0b9c41aa07f2b81d36''"

definition hex_f :: string where
  "hex_f = ''f07c55ab12e94f6e8d30b6c1a4925e7d''"

definition hex_g :: string where
  "hex_g = ''9a6402d1be7c43f5a8e2d07b3c51f6e4''"

definition hex_h :: string where
  "hex_h = ''4b1d8f3e6a2c4e97b05f7d29c8e1a3f6''"

definition ex_fs :: filesystem where
  "ex_fs = \<lparr>nodes = [[] \<mapsto> Dir, [''tmp''] \<mapsto> Dir], cwd = [], protected = {}, tempdir = ''/tmp''\<rparr>"

definition ex_base :: filesystem where
  "ex_base = ex_fs\<lparr>nodes := (nodes ex_fs)([''tmp'', ''roadtemp''] \<mapsto> Dir)\<rparr>"

definition ex_manager :: "bool \<Rightarrow> TempManager" where
  "ex_manager auto_cln =
     \<lparr>base_dir = Path ''/tmp/roadtemp'', auto_cleanup = auto_cln, max_age = 3600, files = []\<rparr>"

definition entry :: "string \<Rightarrow> datetime \<Rightarrow> datetime option \<Rightarrow> string \<times> TempFileInfo" where
  "entry s c ex = (str_path (Path s), \<lparr>path = Path s, created = c, expires = ex, auto_delete = True\<rparr>)"

definition add_file :: "string list \<Rightarrow> filesystem \<Rightarrow> filesystem" where
  "add_file l fs = fs\<lparr>nodes := (nodes fs)(l \<mapsto> File [])\<rparr>"

definition add_dir :: "string list \<Rightarrow> filesystem \<Rightarrow> filesystem" where
  "add_dir l fs = fs\<lparr>nodes := (nodes fs)(l \<mapsto> Dir)\<rparr>"

definition ex_tempdir :: TempDir where
  "ex_tempdir = (TempDir_init [] ''road_'' None True)\<lparr>td_path := Some (Path ''/tmp/road_k3x9_q2m'')\<rparr>"

definition ex_tempdir_fs :: filesystem where
  "ex_tempdir_fs = ex_fs\<lparr>nodes := (nodes ex_fs)([''tmp'', ''road_k3x9_q2m''] \<mapsto> Dir)\<rparr>"



text \<open>
  Three tracked files without a ttl: \<open>hex_f\<close> exists, \<open>hex_g\<close> has been removed
  behind the manager's back, \<open>hex_h\<close> exists and the operating system refuses to remove
  it.
\<close>

definition ex_three :: TempManager where
  "ex_three = (ex_manager False)\<lparr>files :=
      [entry (''/tmp/roadtemp/'' @ hex_f) t0 None, entry (''/tmp/roadtemp/'' @ hex_g) t0 None, entry (''/tmp/roadtemp/'' @ hex_h) t0 None]\<rparr>"

definition ex_three_fs :: filesystem where
  "ex_three_fs =
     (add_file [''tmp'', ''roadtemp'', hex_f] (add_file [''tmp'', ''roadtemp'', hex_h] ex_base))
       \<lparr>protected := {[''tmp'', ''roadtemp'', hex_h]}\<rparr>"

text \<open>Two tracked files: \<open>hex_e\<close> expired after one second, \<open>hex_f\<close> has no ttl.\<close>

definition ex_pair :: TempManager where
  "ex_pair = (ex_manager False)\<lparr>files :=
      [entry (''/tmp/roadtemp/'' @ hex_e) t0 (Some (t0 + 1000000)), entry (''/tmp/roadtemp/'' @ hex_f) t0 None]\<rparr>"

definition ex_pair_fs :: filesystem where
  "ex_pair_fs = add_file [''tmp'', ''roadtemp'', hex_e] (add_file [''tmp'', ''roadtemp'', hex_f] ex_base)"

text \<open>
  A tracked directory \<open>hex_d\<close> with a ttl of one second and a tracked file without
  a ttl inside it: \<^verbatim>\<open>create_dir(ttl=1)\<close>, then \<^verbatim>\<open>create_file(prefix=name + "/")\<close>
  with the name of the directory the first call returned.
\<close>

definition ex_nested :: TempManager where
  "ex_nested = (ex_manager False)\<lparr>files :=
      [entry (''/tmp/roadtemp/'' @ hex_d) t0 (Some (t0 + 1000000)), entry (''/tmp/roadtemp/'' @ hex_d @ ''/'' @ hex_f) t0 None]\<rparr>"

definition ex_nested_fs :: filesystem where
  "ex_nested_fs = add_file [''tmp'', ''roadtemp'', hex_d, hex_f] (add_dir [''tmp'', ''roadtemp'', hex_d] ex_base)"

section \<open>Lemmas\<close>

subsection \<open>Unfolding the model on concrete states\<close>

lemmas ex_defs = t0_def hex_d_def hex_e_def hex_f_def hex_g_def hex_h_def ex_fs_def ex_base_def ex_manager_def entry_def add_file_def add_dir_def

lemmas path_defs = Path_def str_path_def truediv_def parent_def locate_def

lemmas fs_defs = Path_exists_def Path_is_file_def Path_is_dir_def Path_touch_def os_mkdir_def
  create_node_def Path_unlink_def shutil_rmtree_def Path_write_text_def Path_read_text_def

lemmas cleanup_defs = Let_def TempManager_cleanup_def to_remove_def should_remove_def dict_pop_def remove_path_def

lemma ex_manager_init:
  "TempManager_init None auto_cln 3600 ex_fs = Inr (ex_manager auto_cln, ex_base)"
  by (simp add: TempManager_init_def Path_mkdir.simps ex_defs path_defs fs_defs)

lemma ex_tempdir_create:
  "TempDir_create [''k3x9_q2m''] (TempDir_init [] ''road_'' None True) ex_fs = Inr (ex_tempdir, ex_tempdir_fs)"
  by (simp add: TempDir_create_def TempDir_init_def mkdtemp_def os_path_join_def
      ex_tempdir_def ex_tempdir_fs_def ex_defs path_defs fs_defs)



lemma ex_three_run:
  "TempManager_cleanup True t0 ex_three ex_three_fs
    = Inr (2, ex_manager False,
           (add_file [''tmp'', ''roadtemp'', hex_h] ex_base)\<lparr>protected := {[''tmp'', ''roadtemp'', hex_h]}\<rparr>,
           [(Path (''/tmp/roadtemp/'' @ hex_h), PermissionError)])"
  by (simp add: ex_three_def ex_three_fs_def ex_defs path_defs fs_defs cleanup_defs)

lemma ex_three_distinct: "distinct (map fst (files ex_three))"
  by (simp add: ex_three_def ex_defs path_defs)

lemma ex_nested_reachable:
  "TempManager_create_dir [] (Some 1) hex_d t0 t0 (ex_manager False) ex_base
     = Inr (Path (''/tmp/roadtemp/'' @ hex_d),
            (ex_manager False)\<lparr>files := [entry (''/tmp/roadtemp/'' @ hex_d) t0 (Some (t0 + 1000000))]\<rparr>,
            add_dir [''tmp'', ''roadtemp'', hex_d] ex_base)
   \<and> TempManager_create_file [] (hex_d @ ''/'') None hex_f t0 t0
        ((ex_manager False)\<lparr>files := [entry (''/tmp/roadtemp/'' @ hex_d) t0 (Some (t0 + 1000000))]\<rparr>)
        (add_dir [''tmp'', ''roadtemp'', hex_d] ex_base)
     = Inr (Path (''/tmp/roadtemp/'' @ hex_d @ ''/'' @ hex_f), ex_nested, ex_nested_fs)"
  by (simp add: TempManager_create_dir_def TempManager_create_file_def expiry_def
      datetime_add_seconds_def datetime_max_def Path_mkdir.simps
      ex_nested_def ex_nested_fs_def ex_defs path_defs fs_defs Let_def)

lemma rmtree_nested: "shutil_rmtree (Path (''/tmp/roadtemp/'' @ hex_d)) ex_nested_fs = Inr ex_base"
  by (auto simp: ex_nested_fs_def ex_defs path_defs fs_defs fun_eq_iff)

subsection \<open>Resolution and the operations of the file system\<close>

lemma walk_target:
  "walk fs cur cs = Inr l \<Longrightarrow> l = foldl (\<lambda>cur c. if c = ''..'' then butlast cur else cur @ [c]) cur cs"
  by (induction cs arbitrary: cur) (auto split: option.splits node.splits if_splits)

lemma locate_target: "locate fs p = Inr l \<Longrightarrow> l = target fs p"
  unfolding locate_def target_def by (rule walk_target)

lemma target_cwd: "cwd fs' = cwd fs \<Longrightarrow> target fs' p = target fs p"
  by (simp add: target_def)

















text \<open>What a removal can change, and the only way it fails.\<close>

lemma Path_unlink_frame:
  assumes "Path_unlink p fs = Inr fs'"
  shows "cwd fs' = cwd fs \<and> protected fs' = protected fs \<and> tempdir fs' = tempdir fs
     \<and> (\<forall>q. q \<noteq> target fs p \<longrightarrow> nodes fs' q = nodes fs q)"
  using assms 
  by (auto simp: Path_unlink_def split: sum.splits option.splits node.splits if_splits dest!: locate_target)

lemma shutil_rmtree_frame:
  assumes "shutil_rmtree p fs = Inr fs'"
  shows "cwd fs' = cwd fs \<and> protected fs' = protected fs \<and> tempdir fs' = tempdir fs
     \<and> (\<forall>q. \<not> prefix (target fs p) q \<longrightarrow> nodes fs' q = nodes fs q)"
  using assms 
  by (auto simp: shutil_rmtree_def split: sum.splits option.splits node.splits if_splits dest!: locate_target)

lemma remove_path_frame:
  assumes "remove_path p fs = Inr fs'"
  shows "cwd fs' = cwd fs \<and> protected fs' = protected fs \<and> tempdir fs' = tempdir fs
     \<and> (\<forall>q. \<not> prefix (target fs p) q \<longrightarrow> nodes fs' q = nodes fs q)"
proof (cases "Path_is_file p fs")
  case True
  with assms have "Path_unlink p fs = Inr fs'" by (simp add: remove_path_def)
  from Path_unlink_frame[OF this] show ?thesis by auto
next
  case False
  show ?thesis
  proof (cases "Path_is_dir p fs")
    case True
    with False assms have "shutil_rmtree p fs = Inr fs'" by (simp add: remove_path_def)
    from shutil_rmtree_frame[OF this] show ?thesis by auto
  next
    case f2: False
    with False assms show ?thesis by (simp add: remove_path_def)
  qed
qed



subsection \<open>The second loop of \<^verbatim>\<open>cleanup\<close>\<close>

text \<open>
  Each lemma is an induction over the keys still to be popped, with the registry, the
  file system, the count and the log generalised.
\<close>

lemma cleanup_loop_returns:
  "distinct ks \<Longrightarrow> set ks \<subseteq> fst ` set reg \<Longrightarrow>
   \<exists>reg' fs' c' lg'. cleanup_loop ks (reg, fs, c, lg) = Inr (reg', fs', c', lg')"
proof (induction ks arbitrary: reg fs c lg)
  case Nil
  then show ?case by simp
next
  case (Cons k ks)
  from Cons.prems obtain v where v: "map_of reg k = Some v"
    by (cases "map_of reg k") (auto simp: map_of_eq_None_iff)
  have "fst ` set (AList.delete k reg) = fst ` set reg - {k}"
    by (force simp: AList.delete_eq)
  then have sub: "set ks \<subseteq> fst ` set (AList.delete k reg)"
    using Cons.prems by auto
  from Cons.prems have d: "distinct ks" by simp
  show ?case
    using Cons.IH[OF d sub] v
    by (cases "remove_path (path v) fs") (simp_all add: dict_pop_def)
qed

lemma cleanup_loop_result:
  "cleanup_loop ks (reg, fs, c, lg) = Inr (reg', fs', c', lg') \<Longrightarrow>
   reg' = filter (\<lambda>(k, v). k \<notin> set ks) reg
   \<and> c' + int (length lg') = c + int (length lg) + int (length ks)
   \<and> c \<le> c' \<and> prefix lg lg'
   \<and> cwd fs' = cwd fs \<and> protected fs' = protected fs \<and> tempdir fs' = tempdir fs"
proof (induction ks arbitrary: reg fs c lg)
  case Nil
  then show ?case by simp
next
  case (Cons k ks)
  from Cons.prems obtain v where v: "map_of reg k = Some v"
    by (cases "map_of reg k") (auto simp: dict_pop_def)
  have flt: "filter (\<lambda>(k', v). k' \<notin> set ks) (AList.delete k reg) = filter (\<lambda>(k', v). k' \<notin> set (k # ks)) reg"
    by (induction reg) (auto simp: AList.delete_eq)
  show ?case
  proof (cases "remove_path (path v) fs")
    case (Inl e)
    with Cons.prems v have "cleanup_loop ks (AList.delete k reg, fs, c, lg @ [(path v, e)]) = Inr (reg', fs', c', lg')"
      by (simp add: dict_pop_def)
    from Cons.IH[OF this] flt show ?thesis by (auto dest: append_prefixD)
  next
    case (Inr fs1)
    with Cons.prems v have "cleanup_loop ks (AList.delete k reg, fs1, c + 1, lg) = Inr (reg', fs', c', lg')"
      by (simp add: dict_pop_def)
    from Cons.IH[OF this] flt remove_path_frame[OF Inr] show ?thesis by auto
  qed
qed



lemma cleanup_loop_frame:
  "cleanup_loop ks (reg, fs, c, lg) = Inr (reg', fs', c', lg') \<Longrightarrow>
   (\<And>k v. k \<in> set ks \<Longrightarrow> map_of reg k = Some v \<Longrightarrow> \<not> prefix (target fs (path v)) q) \<Longrightarrow>
   nodes fs' q = nodes fs q"
proof (induction ks arbitrary: reg fs c lg)
  case Nil
  then show ?case by simp
next
  case (Cons k ks)
  from Cons.prems(1) obtain v where v: "map_of reg k = Some v"
    by (cases "map_of reg k") (auto simp: dict_pop_def)
  have later: "map_of (AList.delete k reg) k' = Some v' \<Longrightarrow> map_of reg k' = Some v'" for k' v'
    by (cases "k' = k") (simp_all add: AList.delete_conv)
  have here: "\<not> prefix (target fs (path v)) q"
    using Cons.prems(2)[of k v] v by simp
  show ?case
  proof (cases "remove_path (path v) fs")
    case (Inl e)
    with Cons.prems(1) v have run: "cleanup_loop ks (AList.delete k reg, fs, c, lg @ [(path v, e)]) = Inr (reg', fs', c', lg')"
      by (simp add: dict_pop_def)
    show ?thesis
      by (rule Cons.IH[OF run]) (use Cons.prems(2) later in auto)
  next
    case (Inr fs1)
    with Cons.prems(1) v have run: "cleanup_loop ks (AList.delete k reg, fs1, c + 1, lg) = Inr (reg', fs', c', lg')"
      by (simp add: dict_pop_def)
    from remove_path_frame[OF Inr] here
    have same: "cwd fs1 = cwd fs" and q: "nodes fs1 q = nodes fs q" by auto
    have "nodes fs' q = nodes fs1 q"
      by (rule Cons.IH[OF run]) (use Cons.prems(2) later target_cwd[OF same] in auto)
    with q show ?thesis by simp
  qed
qed


subsection \<open>The first loop and the whole method\<close>

lemma to_remove_distinct:
  "distinct (map fst (files self)) \<Longrightarrow> distinct (to_remove self force now)"
  unfolding to_remove_def by (rule distinct_map_filter)

lemma to_remove_keys: "set (to_remove self force now) \<subseteq> fst ` set (files self)"
  unfolding to_remove_def by auto

lemma to_remove_lookup:
  assumes "distinct (map fst (files self))" and "k \<in> set (to_remove self force now)"
    and "map_of (files self) k = Some v"
  shows "(k, v) \<in> set (files self) \<and> should_remove self force now v"
proof -
  from assms(2) obtain v' where v': "(k, v') \<in> set (files self)" "should_remove self force now v'"
    by (auto simp: to_remove_def)
  with assms(1) have "map_of (files self) k = Some v'" by simp
  with assms(3) v' show ?thesis by simp
qed

lemma to_remove_filter:
  assumes "distinct (map fst (files self))"
  shows "filter (\<lambda>(k, v). k \<notin> set (to_remove self force now)) (files self)
       = filter (\<lambda>(k, v). \<not> should_remove self force now v) (files self)"
proof (rule filter_cong[OF refl])
  fix x assume x: "x \<in> set (files self)"
  obtain k v where kv: "x = (k, v)" by (cases x)
  have "k \<in> set (to_remove self force now) \<longleftrightarrow> should_remove self force now v"
  proof
    assume "k \<in> set (to_remove self force now)"
    moreover from x kv assms have "map_of (files self) k = Some v" by simp
    ultimately show "should_remove self force now v"
      using to_remove_lookup[OF assms] by blast
  next
    assume "should_remove self force now v"
    with x kv show "k \<in> set (to_remove self force now)"
      by (force simp: to_remove_def)
  qed
  with kv show "(case x of (k, v) \<Rightarrow> k \<notin> set (to_remove self force now))
      = (case x of (k, v) \<Rightarrow> \<not> should_remove self force now v)" by simp
qed


lemma cleanup_total:
  assumes "distinct (map fst (files self))"
  shows "\<exists>count fs' logged.
    TempManager_cleanup force now self fs
      = Inr (count, self\<lparr>files := filter (\<lambda>(k, v). \<not> should_remove self force now v) (files self)\<rparr>, fs', logged)
    \<and> count = int (length (to_remove self force now)) - int (length logged)
    \<and> 0 \<le> count
    \<and> cwd fs' = cwd fs \<and> protected fs' = protected fs \<and> tempdir fs' = tempdir fs"
proof -
  from cleanup_loop_returns[OF to_remove_distinct[OF assms] to_remove_keys]
  obtain reg' fs' c' lg' where run:
    "cleanup_loop (to_remove self force now) (files self, fs, 0, []) = Inr (reg', fs', c', lg')"
    by blast
  from cleanup_loop_result[OF run] to_remove_filter[OF assms] run show ?thesis
    by (simp add: TempManager_cleanup_def)
qed

subsection \<open>The registry invariant\<close>







section \<open>C1: a ttl of zero\<close>

text \<open>
  In \<^verbatim>\<open>create_file\<close> the condition of
  \<^verbatim>\<open>datetime.now() + timedelta(seconds=ttl) if ttl else None\<close> is the truth value of
  \<open>ttl\<close>, so \<^verbatim>\<open>ttl=0\<close> is registered exactly as no ttl is.
\<close>

lemma ttl_zero_is_no_ttl:
  "TempManager_create_file sfx pfx (Some 0) hex now1 now2 self fs
     = TempManager_create_file sfx pfx None hex now1 now2 self fs"
  by (simp add: TempManager_create_file_def expiry_def Let_def split: sum.splits)

text \<open>
  Every other ttl does set \<open>expires\<close> to the first clock reading plus the ttl, where
  \<^verbatim>\<open>create_file\<close> returns; a ttl that takes the sum out of the range of \<^verbatim>\<open>datetime\<close>
  raises \<^verbatim>\<open>OverflowError\<close> after the file has been touched.
\<close>

lemma create_file_expires_nonzero:
  assumes "n \<noteq> 0"
    and "TempManager_create_file sfx pfx (Some n) hex now1 now2 self fs = Inr (p, self', fs')"
  shows "map_of (files self') (str_path p)
      = Some \<lparr>path = p, created = now2, expires = Some (now1 + n * 1000000), auto_delete = True\<rparr>"
  using assms
  by (auto simp: TempManager_create_file_def expiry_def datetime_add_seconds_def Let_def
      AList.update_conv' split: sum.splits if_splits)

lemma create_file_ttl_out_of_range:
  assumes "n \<noteq> 0" and "now1 + n * 1000000 < 0 \<or> datetime_max < now1 + n * 1000000"
    and "Path_touch (truediv (base_dir self) (pfx @ hex @ sfx)) fs = Inr fs1"
  shows "TempManager_create_file sfx pfx (Some n) hex now1 now2 self fs = Inl OverflowError"
  using assms
  by (auto simp: TempManager_create_file_def expiry_def datetime_add_seconds_def Let_def)

text \<open>
  C1 states that \<^verbatim>\<open>createFile\<close> sets \<open>expires\<close> to now + ttl for every ttl, also for
  \<^verbatim>\<open>ttl=0\<close>, so that the entry is already expired and the next
  \<^verbatim>\<open>cleanup(force=false)\<close> removes and counts it. The code does otherwise: on the
  default manager (\<^verbatim>\<open>auto_cleanup\<close> on, \<^verbatim>\<open>max_age\<close> 3600), \<^verbatim>\<open>create_file(ttl=0)\<close>
  one second after \<open>t0\<close> registers the entry with no \<open>expires\<close>, and \<^verbatim>\<open>cleanup()\<close> a second later
  returns 0 and keeps the entry and its file.
\<close>

theorem create_file_ttl_zero_not_expired:
  "TempManager_create_file [] [] (Some 0) hex_f (t0 + 1000000) (t0 + 1000000) (ex_manager True) ex_base
     = Inr (Path (''/tmp/roadtemp/'' @ hex_f),
            (ex_manager True)\<lparr>files := [entry (''/tmp/roadtemp/'' @ hex_f) (t0 + 1000000) None]\<rparr>,
            add_file [''tmp'', ''roadtemp'', hex_f] ex_base)
   \<and> TempManager_cleanup False (t0 + 2000000)
        ((ex_manager True)\<lparr>files := [entry (''/tmp/roadtemp/'' @ hex_f) (t0 + 1000000) None]\<rparr>)
        (add_file [''tmp'', ''roadtemp'', hex_f] ex_base)
     = Inr (0, (ex_manager True)\<lparr>files := [entry (''/tmp/roadtemp/'' @ hex_f) (t0 + 1000000) None]\<rparr>,
            add_file [''tmp'', ''roadtemp'', hex_f] ex_base, [])"
  by (simp add: TempManager_create_file_def expiry_def ex_defs path_defs fs_defs cleanup_defs)

section \<open>C2: what \<^verbatim>\<open>cleanup\<close> evicts and what it counts\<close>




section \<open>C3: \<^verbatim>\<open>TempDir.file\<close>\<close>




section \<open>C4: \<^verbatim>\<open>cleanup(force=True)\<close> and teardown\<close>




section \<open>C5: a failed removal never leaves \<^verbatim>\<open>cleanup\<close>\<close>



section \<open>C6: cleaning up twice\<close>

text \<open>
  C6: \<^verbatim>\<open>cleanup(force=True)\<close> returns, and a second \<^verbatim>\<open>cleanup(force=True)\<close> on the state
  it leaves, at any later time, returns 0, logs nothing and changes nothing. The same
  holds for two teardowns (\<^verbatim>\<open>__exit__\<close>), which return the same states.
\<close>

theorem force_cleanup_twice:
  assumes "distinct (map fst (files self))"
  shows "\<exists>count self' fs' logged.
    TempManager_cleanup True now self fs = Inr (count, self', fs', logged)
    \<and> TempManager_cleanup True now' self' fs' = Inr (0, self', fs', [])
    \<and> TempManager_exit now self fs = Inr (self', fs')
    \<and> TempManager_exit now' self' fs' = Inr (self', fs')"
proof -
  have sr: "should_remove self True now info" for info
    by (simp add: should_remove_def)
  from cleanup_total[OF assms, of True now fs] obtain count fs' logged where run:
    "TempManager_cleanup True now self fs = Inr (count, self\<lparr>files := []\<rparr>, fs', logged)"
    by (auto simp: sr)
  have again: "TempManager_cleanup True now' (self\<lparr>files := []\<rparr>) fs' = Inr (0, self\<lparr>files := []\<rparr>, fs', [])"
    by (simp add: TempManager_cleanup_def to_remove_def)
  from run again show ?thesis
    by (simp add: TempManager_exit_def)
qed

text \<open>On \<open>ex_three\<close>: the first call returns 2, the second 0.\<close>

theorem force_cleanup_twice_witness:
  "distinct (map fst (files ex_three))
   \<and> (\<exists>count self' fs' logged.
        TempManager_cleanup True t0 ex_three ex_three_fs = Inr (count, self', fs', logged)
        \<and> count = 2
        \<and> TempManager_cleanup True (t0 + 7) self' fs' = Inr (0, self', fs', [])
        \<and> TempManager_exit t0 ex_three ex_three_fs = Inr (self', fs')
        \<and> TempManager_exit (t0 + 7) self' fs' = Inr (self', fs'))"
proof -
  have d: "distinct (map fst (files ex_three))" by (rule ex_three_distinct)
  from force_cleanup_twice[OF d, of t0 ex_three_fs "t0 + 7"] obtain count self' fs' logged where
    run: "TempManager_cleanup True t0 ex_three ex_three_fs = Inr (count, self', fs', logged)"
      "TempManager_cleanup True (t0 + 7) self' fs' = Inr (0, self', fs', [])"
      "TempManager_exit t0 ex_three ex_three_fs = Inr (self', fs')"
      "TempManager_exit (t0 + 7) self' fs' = Inr (self', fs')"
    by blast
  from run(1) ex_three_run have "count = 2" by simp
  with d run show ?thesis by blast
qed

section \<open>C7: entries without a ttl when \<^verbatim>\<open>auto_cleanup\<close> is off\<close>

text \<open>
  C7, as the code has it. With \<^verbatim>\<open>auto_cleanup\<close> off, \<^verbatim>\<open>cleanup(force=False)\<close> at any
  time keeps an entry that has no \<open>expires\<close> in the registry. The call changes the file
  system only at and below the locations of the entries it selected: every location that
  is not at or below one of them holds after the call what it held before. So the
  entry's backing object is untouched unless it lies inside a tracked directory that
  expired.
\<close>

theorem cleanup_keeps_entry_without_ttl:
  assumes "distinct (map fst (files self))" and "\<not> auto_cleanup self"
    and "(key, info) \<in> set (files self)" and "expires info = None"
  shows "\<exists>count self' fs' logged.
    TempManager_cleanup False now self fs = Inr (count, self', fs', logged)
    \<and> (key, info) \<in> set (files self')
    \<and> (\<forall>q. (\<forall>(key', info') \<in> set (files self).
                should_remove self False now info' \<longrightarrow> \<not> prefix (target fs (path info')) q)
         \<longrightarrow> nodes fs' q = nodes fs q)"
proof -
  let ?keep = "filter (\<lambda>(k, v). \<not> should_remove self False now v) (files self)"
  from cleanup_total[OF assms(1), of False now fs] obtain count fs' logged where run:
    "TempManager_cleanup False now self fs = Inr (count, self\<lparr>files := ?keep\<rparr>, fs', logged)"
    by blast
  from assms(2,4) have "\<not> should_remove self False now info"
    by (simp add: should_remove_def)
  with assms(3) have kept: "(key, info) \<in> set ?keep" by auto
  have frame: "nodes fs' q = nodes fs q"
    if far: "\<forall>(key', info') \<in> set (files self).
                should_remove self False now info' \<longrightarrow> \<not> prefix (target fs (path info')) q" for q
  proof -
    from run obtain reg where loop:
      "cleanup_loop (to_remove self False now) (files self, fs, 0, []) = Inr (reg, fs', count, logged)"
      by (auto simp: TempManager_cleanup_def split: sum.splits)
    show ?thesis
    proof (rule cleanup_loop_frame[OF loop])
      fix k v
      assume "k \<in> set (to_remove self False now)" and "map_of (files self) k = Some v"
      from to_remove_lookup[OF assms(1) this] far show "\<not> prefix (target fs (path v)) q" by auto
    qed
  qed
  from run kept frame show ?thesis by auto
qed

text \<open>
  C7 as stated fails for the backing object: in \<open>ex_nested\<close>, the state that
  \<^verbatim>\<open>create_dir(ttl=1)\<close> and \<^verbatim>\<open>create_file\<close> with the directory's name as prefix
  leave (lemma \<open>ex_nested_reachable\<close>), the file without a ttl lies in a tracked directory
  whose ttl has passed. \<^verbatim>\<open>cleanup()\<close> five seconds on removes the directory with
  \<^verbatim>\<open>shutil.rmtree\<close>; the file's entry stays in the registry and the file is gone.
\<close>

theorem cleanup_removes_file_inside_expired_dir:
  "\<not> auto_cleanup ex_nested
   \<and> entry (''/tmp/roadtemp/'' @ hex_d @ ''/'' @ hex_f) t0 None \<in> set (files ex_nested)
   \<and> Path_is_file (Path (''/tmp/roadtemp/'' @ hex_d @ ''/'' @ hex_f)) ex_nested_fs
   \<and> TempManager_cleanup False (t0 + 5000000) ex_nested ex_nested_fs
       = Inr (1, (ex_manager False)\<lparr>files := [entry (''/tmp/roadtemp/'' @ hex_d @ ''/'' @ hex_f) t0 None]\<rparr>, ex_base, [])
   \<and> \<not> Path_exists (Path (''/tmp/roadtemp/'' @ hex_d @ ''/'' @ hex_f)) ex_base"
proof -
  have isdir: "Path_is_dir (Path (''/tmp/roadtemp/'' @ hex_d)) ex_nested_fs"
    and nofile: "\<not> Path_is_file (Path (''/tmp/roadtemp/'' @ hex_d)) ex_nested_fs"
    by (simp_all add: ex_nested_fs_def ex_defs path_defs fs_defs)
  have "remove_path (Path (''/tmp/roadtemp/'' @ hex_d)) ex_nested_fs = Inr ex_base"
    using isdir nofile rmtree_nested by (simp add: remove_path_def)
  then have "TempManager_cleanup False (t0 + 5000000) ex_nested ex_nested_fs
       = Inr (1, (ex_manager False)\<lparr>files := [entry (''/tmp/roadtemp/'' @ hex_d @ ''/'' @ hex_f) t0 None]\<rparr>, ex_base, [])"
    by (simp add: ex_nested_def ex_manager_def entry_def hex_d_def hex_f_def path_defs Let_def
        TempManager_cleanup_def to_remove_def should_remove_def dict_pop_def)
  moreover have "\<not> auto_cleanup ex_nested" "entry (''/tmp/roadtemp/'' @ hex_d @ ''/'' @ hex_f) t0 None \<in> set (files ex_nested)"
    by (simp_all add: ex_nested_def ex_manager_def)
  moreover have "Path_is_file (Path (''/tmp/roadtemp/'' @ hex_d @ ''/'' @ hex_f)) ex_nested_fs"
    "\<not> Path_exists (Path (''/tmp/roadtemp/'' @ hex_d @ ''/'' @ hex_f)) ex_base"
    by (simp_all add: ex_nested_fs_def ex_defs path_defs fs_defs)
  ultimately show ?thesis by simp
qed

text \<open>
  The theorem on \<open>ex_pair\<close> five seconds after \<open>t0\<close>: the expired file \<open>hex_e\<close> is removed, the
  entry of \<open>hex_f\<close> stays and its file is as it was.
\<close>

theorem cleanup_keeps_entry_without_ttl_witness:
  "distinct (map fst (files ex_pair)) \<and> \<not> auto_cleanup ex_pair
   \<and> entry (''/tmp/roadtemp/'' @ hex_f) t0 None \<in> set (files ex_pair)
   \<and> expires (snd (entry (''/tmp/roadtemp/'' @ hex_f) t0 None)) = None
   \<and> (\<exists>count self' fs' logged.
        TempManager_cleanup False (t0 + 5000000) ex_pair ex_pair_fs = Inr (count, self', fs', logged)
        \<and> entry (''/tmp/roadtemp/'' @ hex_f) t0 None \<in> set (files self')
        \<and> nodes fs' [''tmp'', ''roadtemp'', hex_f] = Some (File [])
        \<and> nodes fs' [''tmp'', ''roadtemp'', hex_e] = None)"
proof -
  have h: "distinct (map fst (files ex_pair))" "\<not> auto_cleanup ex_pair"
    "(fst (entry (''/tmp/roadtemp/'' @ hex_f) t0 None), snd (entry (''/tmp/roadtemp/'' @ hex_f) t0 None)) \<in> set (files ex_pair)"
    "expires (snd (entry (''/tmp/roadtemp/'' @ hex_f) t0 None)) = None"
    by (simp_all add: ex_pair_def ex_defs path_defs)
  from cleanup_keeps_entry_without_ttl[OF h, of "t0 + 5000000" ex_pair_fs] obtain count self' fs' logged where
    run: "TempManager_cleanup False (t0 + 5000000) ex_pair ex_pair_fs = Inr (count, self', fs', logged)"
    and kept: "entry (''/tmp/roadtemp/'' @ hex_f) t0 None \<in> set (files self')"
    and frame: "\<And>q. (\<forall>(key', info') \<in> set (files ex_pair).
                should_remove ex_pair False (t0 + 5000000) info' \<longrightarrow> \<not> prefix (target ex_pair_fs (path info')) q)
         \<Longrightarrow> nodes fs' q = nodes ex_pair_fs q"
    by auto
  have "nodes fs' [''tmp'', ''roadtemp'', hex_f] = nodes ex_pair_fs [''tmp'', ''roadtemp'', hex_f]"
    by (rule frame) (simp add: ex_pair_def ex_pair_fs_def ex_defs path_defs should_remove_def target_def)
  then have f: "nodes fs' [''tmp'', ''roadtemp'', hex_f] = Some (File [])"
    by (simp add: ex_pair_fs_def ex_defs)
  have "TempManager_cleanup False (t0 + 5000000) ex_pair ex_pair_fs
      = Inr (1, (ex_manager False)\<lparr>files := [entry (''/tmp/roadtemp/'' @ hex_f) t0 None]\<rparr>,
             add_file [''tmp'', ''roadtemp'', hex_f] ex_base, [])"
    by (simp add: ex_pair_def ex_pair_fs_def ex_defs path_defs fs_defs cleanup_defs fun_upd_twist)
  with run have "nodes fs' [''tmp'', ''roadtemp'', hex_e] = None"
    by (auto simp: ex_defs)
  with h run kept f show ?thesis by auto
qed

section \<open>C8: \<^verbatim>\<open>write\<close> and \<^verbatim>\<open>read\<close> without a stream\<close>

text \<open>
  After \<^verbatim>\<open>create()\<close> the handle has a stream, and \<^verbatim>\<open>write\<close> and \<^verbatim>\<open>read\<close> go to it:
  the zero and the empty result below belong to the handles without one. \<^verbatim>\<open>close()\<close>
  leaves no stream, and \<^verbatim>\<open>__exit__\<close> closes.
\<close>

lemma write_on_open_stream:
  assumes "TempFile_create names fd (TempFile_init sfx pfx dir delete True) fs = Inr (h, fs')"
  shows "\<exists>h'. TempFile_write h (Str s) = Inr (int (length s), h')
           \<and> TempFile_read h' = Inr (Str s, h')"
  using assms
  by (auto simp: TempFile_create_def TempFile_init_def TempFile_write_def TempFile_read_def
      os_fdopen_def file_write_def put_at_def file_read_all_def split: sum.splits)

lemma exit_closes:
  "TempFile_close (fst (TempFile_exit h fs)) = fst (TempFile_exit h fs)
   \<and> tf_file (TempFile_close h) = None"
  by (simp add: TempFile_exit_def TempFile_close_def Let_def split: option.split)

text \<open>
  C8: on a handle on which \<^verbatim>\<open>create()\<close> has not been called, and on any handle after
  \<^verbatim>\<open>close()\<close>, \<^verbatim>\<open>write(data)\<close> returns 0 and \<^verbatim>\<open>read()\<close> returns the empty text or
  the empty byte string, according to the handle's text mode; neither raises, whatever
  the data, and the handle is unchanged.
\<close>

theorem write_read_without_stream:
  "TempFile_write (TempFile_init sfx pfx dir delete text) data
     = Inr (0, TempFile_init sfx pfx dir delete text)
   \<and> TempFile_read (TempFile_init sfx pfx dir delete text)
     = Inr ((if text then Str [] else Bytes []), TempFile_init sfx pfx dir delete text)
   \<and> TempFile_write (TempFile_close h) data = Inr (0, TempFile_close h)
   \<and> TempFile_read (TempFile_close h)
     = Inr ((if tf_text h then Str [] else Bytes []), TempFile_close h)"
  by (simp add: TempFile_write_def TempFile_read_def TempFile_init_def TempFile_close_def
      split: option.split)

section \<open>C9: \<^verbatim>\<open>TempDir.subdir\<close> twice\<close>



section \<open>C10: the invariant of the registry\<close>




end
